theory Spec2Isabelle
  imports Main "HOL-Library.Multiset"
begin

section \<open>Data model\<close>

text \<open>
  The backend is a Flask application (\<^verbatim>\<open>app.py\<close>) that creates job records in Redis and
  queues a Celery task, and a worker (\<^verbatim>\<open>tasks.py\<close>) that runs the stages of the pipeline
  and writes progress into the same records. Everything outside the two files (Redis,
  the queue, OpenAI, Replicate, ElevenLabs, FFmpeg, S3, the file system, the clock and
  the UUID generator) is an input of the model: the store and the effect logs are
  passed as explicit state, the collaborators are functions of an environment record
  that say how each call ends.
\<close>

subsection \<open>Values and exceptions\<close>

text \<open>
  A JSON value of a request body. Numbers are Python integers; fractional numbers,
  arrays and objects as field values are not part of the model.
\<close>

datatype json = JNull | JBool bool | JInt int | JStr string

text \<open>Python truthiness, as \<^verbatim>\<open>if x:\<close> and \<^verbatim>\<open>a if x else b\<close> decide it.\<close>

fun truthy :: "json \<Rightarrow> bool" where
  "truthy JNull = False"
| "truthy (JBool b) = b"
| "truthy (JInt n) = (n \<noteq> 0)"
| "truthy (JStr s) = (s \<noteq> [])"

text \<open>Truthiness of an optional string (\<^verbatim>\<open>None\<close> and \<^verbatim>\<open>''\<close> are false).\<close>

fun truthy_str :: "string option \<Rightarrow> bool" where
  "truthy_str None = False"
| "truthy_str (Some s) = (s \<noteq> [])"

text \<open>A raised exception; \<open>str\<close> is the text that \<^verbatim>\<open>str(e)\<close> gives.\<close>

datatype error = Error string

fun str :: "error \<Rightarrow> string" where
  "str (Error m) = m"

text \<open>Decimal digits of a natural number, as an f-string prints \<^verbatim>\<open>{i+1}\<close>.\<close>

fun string_of_nat :: "nat \<Rightarrow> string" where
  "string_of_nat n =
     (if n < 10 then [''0123456789'' ! n]
      else string_of_nat (n div 10) @ [''0123456789'' ! (n mod 10)])"

declare string_of_nat.simps [simp del]

subsection \<open>Jobs\<close>

datatype job_status = Queued | Processing | Completed | Failed

text \<open>
  The four validated fields of a submission: what \<^verbatim>\<open>generate_video\<close> hands to the
  task as \<^verbatim>\<open>request_data\<close> once the body has passed validation.
\<close>

record request =
  story :: string
  duration :: int
  resolution :: string
  tiktok :: json

text \<open>
  The dictionary stored under \<^verbatim>\<open>job:<id>\<close>. The key \<^verbatim>\<open>updated_at\<close> is absent until
  the first progress update; \<^verbatim>\<open>error\<close> is \<^verbatim>\<open>None\<close> at creation.
\<close>

record job_info = request +
  job_id :: string
  status :: job_status
  progress :: int
  created_at :: string
  updated_at :: "string option"
  error :: "string option"

subsection \<open>Scripts and per-scene artifacts\<close>

text \<open>
  A scene and a script in the format the prompt of \<^verbatim>\<open>generate_script\<close> asks for, which
  is also the format of the fallback script: every scene is a dictionary with the six
  keys below, numbers under the numeric keys and strings under the others. Replies
  that parse to JSON of another shape are represented only as far as the task reads
  them, see \<open>reply\<close> below; a script whose scenes lack keys is not part of the model.
\<close>

record scene =
  scene_number :: int
  scene_duration :: int
  narration :: string
  image_description :: string
  timing_start :: int
  timing_end :: int

record script_data =
  title :: string
  scenes :: "scene list"

text \<open>
  What \<^verbatim>\<open>json.loads\<close> makes of the reply when it parses: a script, or a JSON value on
  which \<^verbatim>\<open>script_data['scenes']\<close> raises (with the exception it raises).
\<close>

datatype reply = Script script_data | NoScenes error

record image =
  img_scene_number :: int
  image_path :: "string option"
  img_duration :: int

text \<open>
  The duration of an audio record is \<^verbatim>\<open>len(audio) / 22050\<close> on success (kept as the
  number of samples, the quotient being a float) and the scene's own duration in the
  handler.
\<close>

datatype audio_duration = Samples nat | Seconds int

record audio =
  aud_scene_number :: int
  audio_path :: "string option"
  aud_duration :: audio_duration

subsection \<open>The environment\<close>

text \<open>
  How each call to a collaborator ends. \<open>Inl e\<close> is the exception \<open>e\<close>; for the calls
  that return nothing, \<open>Some e\<close> is the exception and \<open>None\<close> is success. The calls made
  once per scene take the scene's index, so that two scenes with equal text may end
  differently.
\<close>

record env =
  now :: string
  uuid4 :: string
  openai_chat :: "string \<Rightarrow> int \<Rightarrow> bool \<Rightarrow> error + string"
  json_loads :: "string \<Rightarrow> reply option"
  replicate_run :: "nat \<Rightarrow> string \<Rightarrow> nat \<times> nat \<Rightarrow> error + string"
  requests_get :: "string \<Rightarrow> error + nat \<times> string"
  makedirs :: "string \<Rightarrow> error option"
  write_file :: "string \<Rightarrow> string \<Rightarrow> error option"
  elevenlabs_generate :: "nat \<Rightarrow> string \<Rightarrow> error + nat"
  elevenlabs_save :: "string \<Rightarrow> error option"
  path_exists :: "string \<Rightarrow> bool"
  ffmpeg_segment :: "string \<Rightarrow> string \<Rightarrow> string \<Rightarrow> string \<Rightarrow> error + int"
  ffmpeg_concat :: "string list \<Rightarrow> string \<Rightarrow> error + int"
  s3_bucket_name :: "string option"
  s3_upload_file :: "string \<Rightarrow> string \<Rightarrow> string \<Rightarrow> error option"

subsection \<open>The shared state\<close>

text \<open>
  Redis as a map from keys to job records, with a flag saying whether the server
  answers (a command on an unreachable server raises). \<open>sets\<close> lists the \<^verbatim>\<open>SET\<close>
  commands the server has executed, oldest first, each with its expiry in seconds;
  a record that has expired is a key that is absent. \<open>queue\<close> holds the tasks handed
  to Celery, \<open>s3_calls\<close> the calls made to \<^verbatim>\<open>upload_file\<close>.
\<close>

record world =
  redis_up :: bool
  kv :: "string \<rightharpoonup> job_info"
  sets :: "(string \<times> job_info \<times> nat) list"
  broker_up :: bool
  queue :: "(string \<times> request) list"
  s3_calls :: "(string \<times> string \<times> string) list"

definition job_key :: "string \<Rightarrow> string" where
  "job_key jid = ''job:'' @ jid"

definition redis_get :: "world \<Rightarrow> string \<Rightarrow> error + job_info option" where
  "redis_get w k =
     (if redis_up w then Inr (kv w k) else Inl (Error ''ConnectionError''))"

definition redis_set :: "world \<Rightarrow> string \<Rightarrow> job_info \<Rightarrow> nat \<Rightarrow> error + world" where
  "redis_set w k v ex =
     (if redis_up w
      then Inr (w\<lparr>kv := (kv w)(k \<mapsto> v), sets := sets w @ [(k, v, ex)]\<rparr>)
      else Inl (Error ''ConnectionError''))"

section \<open>The worker: tasks.py\<close>

subsection \<open>update_job_progress\<close>

text \<open>
  Reads the record, overwrites status and progress, overwrites \<^verbatim>\<open>error\<close> only when the
  argument is truthy, stamps \<^verbatim>\<open>updated_at\<close> and stores the record with a fresh expiry of
  3600 seconds. Nothing is written when the key is absent; an exception of the store is
  logged and swallowed.
\<close>

definition update_job_progress ::
  "env \<Rightarrow> world \<Rightarrow> string \<Rightarrow> job_status \<Rightarrow> int \<Rightarrow> string option \<Rightarrow> world" where
  "update_job_progress e w jid st p err =
     (case redis_get w (job_key jid) of
        Inl _ \<Rightarrow> w
      | Inr None \<Rightarrow> w
      | Inr (Some job_data) \<Rightarrow>
          (let info1 = job_data\<lparr>status := st, progress := p\<rparr>;
               info2 = (if truthy_str err then info1\<lparr>error := err\<rparr> else info1);
               info3 = info2\<lparr>updated_at := Some (now e)\<rparr>
           in case redis_set w (job_key jid) info3 3600 of
                Inl _ \<Rightarrow> w
              | Inr w' \<Rightarrow> w'))"

subsection \<open>generate_script\<close>

text \<open>
  The prompt is a function of the story, the duration and the truth value of the
  format flag, so the model's call to OpenAI takes these three. An exception of the
  call is logged and raised again. A reply that is not JSON gives the fallback script
  of one scene.
\<close>

definition fallback_script :: "string \<Rightarrow> int \<Rightarrow> string \<Rightarrow> script_data" where
  "fallback_script st dur script_content =
     \<lparr>title = st,
      scenes = [\<lparr>scene_number = 1,
                 scene_duration = dur * 60,
                 narration = script_content,
                 image_description = ''Biblical scene depicting '' @ st,
                 timing_start = 0,
                 timing_end = dur * 60\<rparr>]\<rparr>"

definition generate_script :: "env \<Rightarrow> string \<Rightarrow> int \<Rightarrow> json \<Rightarrow> error + reply" where
  "generate_script e st dur tiktok_format =
     (case openai_chat e st dur (truthy tiktok_format) of
        Inl ex \<Rightarrow> Inl ex
      | Inr script_content \<Rightarrow>
          (case json_loads e script_content of
             Some parsed \<Rightarrow> Inr parsed
           | None \<Rightarrow> Inr (Script (fallback_script st dur script_content))))"

subsection \<open>generate_images\<close>

text \<open>
  The table \<^verbatim>\<open>resolution_map\<close> with its default, \<^verbatim>\<open>'1920x1080'\<close>. The model keeps the
  width and the height that \<^verbatim>\<open>generate_images\<close> parses out of the string, and prints the
  string again where \<^verbatim>\<open>stitch_video\<close> puts it into the FFmpeg filter.
\<close>

definition resolution_map :: "string \<Rightarrow> nat \<times> nat" where
  "resolution_map r =
     (if r = ''HD'' then (1280, 720)
      else if r = ''Full HD'' then (1920, 1080)
      else if r = ''4K'' then (3840, 2160)
      else (1920, 1080))"

definition dimensions_str :: "nat \<times> nat \<Rightarrow> string" where
  "dimensions_str d = string_of_nat (fst d) @ ''x'' @ string_of_nat (snd d)"

definition scene_image_path :: "nat \<Rightarrow> string" where
  "scene_image_path i = ''/tmp/images/scene_'' @ string_of_nat (i + 1) @ ''.png''"

text \<open>
  The body of the loop for the scene at index \<open>i\<close>: the \<^verbatim>\<open>try\<close> block appends a record
  with the path of the saved file; any exception in it (of Replicate, of the download,
  a status other than 200, of the directory or the file) is caught by the handler,
  which appends a record whose path is \<^verbatim>\<open>None\<close>.
\<close>

definition image_placeholder :: "scene \<Rightarrow> image" where
  "image_placeholder sc =
     \<lparr>img_scene_number = scene_number sc, image_path = None,
      img_duration = scene_duration sc\<rparr>"

definition generate_image :: "env \<Rightarrow> nat \<times> nat \<Rightarrow> nat \<Rightarrow> scene \<Rightarrow> image" where
  "generate_image e dims i sc =
     (case replicate_run e i (image_description sc) dims of
        Inl _ \<Rightarrow> image_placeholder sc
      | Inr image_url \<Rightarrow>
          (case requests_get e image_url of
             Inl _ \<Rightarrow> image_placeholder sc
           | Inr (status_code, content) \<Rightarrow>
               if status_code = 200 then
                 (case makedirs e ''/tmp/images'' of
                    Some _ \<Rightarrow> image_placeholder sc
                  | None \<Rightarrow>
                      (case write_file e (scene_image_path i) content of
                         Some _ \<Rightarrow> image_placeholder sc
                       | None \<Rightarrow>
                           \<lparr>img_scene_number = scene_number sc,
                            image_path = Some (scene_image_path i),
                            img_duration = scene_duration sc\<rparr>))
               else image_placeholder sc))"

fun generate_images_from :: "env \<Rightarrow> nat \<times> nat \<Rightarrow> nat \<Rightarrow> scene list \<Rightarrow> image list" where
  "generate_images_from e dims i [] = []"
| "generate_images_from e dims i (sc # rest) =
     generate_image e dims i sc # generate_images_from e dims (Suc i) rest"

text \<open>
  With scenes that carry their fields nothing outside the per-scene \<^verbatim>\<open>try\<close> raises, so
  the outer handler of the source (log and raise again) has no branch here.
\<close>

definition generate_images :: "env \<Rightarrow> scene list \<Rightarrow> string \<Rightarrow> image list" where
  "generate_images e scs res = generate_images_from e (resolution_map res) 0 scs"

subsection \<open>generate_voiceover\<close>

definition scene_audio_path :: "nat \<Rightarrow> string" where
  "scene_audio_path i = ''/tmp/audio/scene_'' @ string_of_nat (i + 1) @ ''.wav''"

definition audio_placeholder :: "scene \<Rightarrow> audio" where
  "audio_placeholder sc =
     \<lparr>aud_scene_number = scene_number sc, audio_path = None,
      aud_duration = Seconds (scene_duration sc)\<rparr>"

definition generate_voice :: "env \<Rightarrow> nat \<Rightarrow> scene \<Rightarrow> audio" where
  "generate_voice e i sc =
     (case elevenlabs_generate e i (narration sc) of
        Inl _ \<Rightarrow> audio_placeholder sc
      | Inr len_audio \<Rightarrow>
          (case makedirs e ''/tmp/audio'' of
             Some _ \<Rightarrow> audio_placeholder sc
           | None \<Rightarrow>
               (case elevenlabs_save e (scene_audio_path i) of
                  Some _ \<Rightarrow> audio_placeholder sc
                | None \<Rightarrow>
                    \<lparr>aud_scene_number = scene_number sc,
                     audio_path = Some (scene_audio_path i),
                     aud_duration = Samples len_audio\<rparr>)))"

fun generate_voiceover_from :: "env \<Rightarrow> nat \<Rightarrow> scene list \<Rightarrow> audio list" where
  "generate_voiceover_from e i [] = []"
| "generate_voiceover_from e i (sc # rest) =
     generate_voice e i sc # generate_voiceover_from e (Suc i) rest"

definition generate_voiceover :: "env \<Rightarrow> script_data \<Rightarrow> audio list" where
  "generate_voiceover e sd = generate_voiceover_from e 0 (scenes sd)"

subsection \<open>stitch_video\<close>

text \<open>
  \<^verbatim>\<open>next((img['image_path'] for img in images if img['scene_number'] == n), None)\<close>:
  the path of the first record with the scene's number, which may itself be \<^verbatim>\<open>None\<close>.
\<close>

fun find_image_path :: "image list \<Rightarrow> int \<Rightarrow> string option" where
  "find_image_path [] n = None"
| "find_image_path (img # rest) n =
     (if img_scene_number img = n then image_path img else find_image_path rest n)"

fun find_audio_path :: "audio list \<Rightarrow> int \<Rightarrow> string option" where
  "find_audio_path [] n = None"
| "find_audio_path (a # rest) n =
     (if aud_scene_number a = n then audio_path a else find_audio_path rest n)"

definition segment_path :: "nat \<Rightarrow> string" where
  "segment_path i = ''/tmp/video_segments/segment_'' @ string_of_nat (i + 1) @ ''.mp4''"

text \<open>
  The test of the loop body: both paths truthy and both files on disk (\<^verbatim>\<open>and\<close> stops at
  the first false operand). The result is the pair of paths FFmpeg is run on.
\<close>

definition scene_media :: "env \<Rightarrow> image list \<Rightarrow> audio list \<Rightarrow> scene \<Rightarrow> (string \<times> string) option" where
  "scene_media e images audio_files sc =
     (case find_image_path images (scene_number sc) of
        None \<Rightarrow> None
      | Some ip \<Rightarrow>
          (case find_audio_path audio_files (scene_number sc) of
             None \<Rightarrow> None
           | Some ap \<Rightarrow>
               if ip \<noteq> [] \<and> ap \<noteq> [] \<and> path_exists e ip \<and> path_exists e ap
               then Some (ip, ap) else None))"

text \<open>
  The segment of the scene at index \<open>i\<close>: FFmpeg is run when the scene has its media;
  the segment is kept when FFmpeg exits with 0. A non-zero exit is logged, an
  exception is caught by the handler of the loop body; in both cases the loop goes on
  without a segment for this scene.
\<close>

definition make_segment ::
  "env \<Rightarrow> image list \<Rightarrow> audio list \<Rightarrow> string \<Rightarrow> nat \<Rightarrow> scene \<Rightarrow> string list" where
  "make_segment e images audio_files dims i sc =
     (case scene_media e images audio_files sc of
        None \<Rightarrow> []
      | Some (ip, ap) \<Rightarrow>
          (case ffmpeg_segment e ip ap dims (segment_path i) of
             Inl _ \<Rightarrow> []
           | Inr returncode \<Rightarrow> if returncode = 0 then [segment_path i] else []))"

fun stitch_segments ::
  "env \<Rightarrow> image list \<Rightarrow> audio list \<Rightarrow> string \<Rightarrow> nat \<Rightarrow> scene list \<Rightarrow> string list" where
  "stitch_segments e images audio_files dims i [] = []"
| "stitch_segments e images audio_files dims i (sc # rest) =
     make_segment e images audio_files dims i sc
       @ stitch_segments e images audio_files dims (Suc i) rest"

text \<open>
  The list handed to the concatenation is \<open>segment_paths\<close>, in the order of the loop.
  \<^verbatim>\<open>stitch_video\<close> returns \<^verbatim>\<open>True\<close> only when that list is not empty and FFmpeg
  concatenates it with exit code 0; every exception gives \<^verbatim>\<open>False\<close>. The format flag
  only sets \<^verbatim>\<open>aspect_ratio\<close>, which the source never reads.
\<close>

definition segment_paths ::
  "env \<Rightarrow> script_data \<Rightarrow> image list \<Rightarrow> audio list \<Rightarrow> string \<Rightarrow> string list" where
  "segment_paths e sd images audio_files res =
     stitch_segments e images audio_files (dimensions_str (resolution_map res)) 0 (scenes sd)"

definition stitch_video ::
  "env \<Rightarrow> script_data \<Rightarrow> image list \<Rightarrow> audio list \<Rightarrow> string \<Rightarrow> json \<Rightarrow> string \<Rightarrow> bool" where
  "stitch_video e sd images audio_files res tiktok_format output_path =
     (case makedirs e ''/tmp/video_segments'' of
        Some _ \<Rightarrow> False
      | None \<Rightarrow>
          (let paths = segment_paths e sd images audio_files res in
           if paths \<noteq> [] then
             (case ffmpeg_concat e paths output_path of
                Inl _ \<Rightarrow> False
              | Inr returncode \<Rightarrow> returncode = 0)
           else False))"

subsection \<open>generate_video_task\<close>

definition video_path :: "string \<Rightarrow> string" where
  "video_path jid = ''/tmp/videos/'' @ jid @ ''.mp4''"

text \<open>
  Step 5: the upload runs only when \<^verbatim>\<open>S3_BUCKET_NAME\<close> is set to a non-empty string;
  its exception is logged and swallowed.
\<close>

definition upload_step :: "env \<Rightarrow> world \<Rightarrow> string \<Rightarrow> world" where
  "upload_step e w jid =
     (case s3_bucket_name e of
        None \<Rightarrow> w
      | Some bucket \<Rightarrow>
          if bucket \<noteq> [] then
            (let w' = w\<lparr>s3_calls := s3_calls w @
                        [(video_path jid, bucket, ''videos/'' @ jid @ ''.mp4'')]\<rparr>
             in case s3_upload_file e (video_path jid) bucket (''videos/'' @ jid @ ''.mp4'') of
                  Some _ \<Rightarrow> w'
                | None \<Rightarrow> w')
          else w)"

text \<open>
  The \<^verbatim>\<open>try\<close> block of the task. \<open>Inl (ex, w)\<close>: the exception \<open>ex\<close> left the block in
  state \<open>w\<close>; \<open>Inr w\<close>: the block ran to its end.
\<close>

definition task_body :: "env \<Rightarrow> world \<Rightarrow> string \<Rightarrow> request \<Rightarrow> error \<times> world + world" where
  "task_body e w jid request_data =
     (let w1 = update_job_progress e w jid Processing 10 None in
      case generate_script e (story request_data) (duration request_data)
             (tiktok request_data) of
        Inl ex \<Rightarrow> Inl (ex, w1)
      | Inr parsed \<Rightarrow>
          (let w2 = update_job_progress e w1 jid Processing 20 None in
           case parsed of
             NoScenes ex \<Rightarrow> Inl (ex, w2)
           | Script sd \<Rightarrow>
               (let images = generate_images e (scenes sd) (resolution request_data);
                    w3 = update_job_progress e w2 jid Processing 40 None;
                    audio_files = generate_voiceover e sd;
                    w4 = update_job_progress e w3 jid Processing 60 None
                in case makedirs e ''/tmp/videos'' of
                     Some ex \<Rightarrow> Inl (ex, w4)
                   | None \<Rightarrow>
                       if stitch_video e sd images audio_files (resolution request_data)
                            (tiktok request_data) (video_path jid)
                       then
                         (let w5 = update_job_progress e w4 jid Processing 90 None;
                              w6 = upload_step e w5 jid
                          in Inr (update_job_progress e w6 jid Completed 100 None))
                       else
                         Inr (update_job_progress e w4 jid Failed 0
                                (Some ''Video stitching failed'')))))"

definition generate_video_task :: "env \<Rightarrow> world \<Rightarrow> string \<Rightarrow> request \<Rightarrow> world" where
  "generate_video_task e w jid request_data =
     (case task_body e w jid request_data of
        Inl (ex, w') \<Rightarrow> update_job_progress e w' jid Failed 0 (Some (str ex))
      | Inr w' \<Rightarrow> w')"

section \<open>The API: app.py\<close>




text \<open>
  The body of a response: an error message, the answer of \<^verbatim>\<open>/generate\<close>, the answer of
  \<^verbatim>\<open>/status\<close>, or a file sent as an attachment under a download name.
\<close>

datatype body =
    ErrorBody string
  | GenerateBody string job_status string
  | StatusBody string job_status int string "string option"
  | FileBody string string

type_synonym response = "nat \<times> body"

definition internal_server_error :: response where
  "internal_server_error = (500, ErrorBody ''Internal server error'')"



subsection \<open>POST /generate\<close>


subsection \<open>GET /status/<job_id>\<close>


subsection \<open>GET /download/<job_id>\<close>

text \<open>
  \<open>FileBody p n\<close> is \<^verbatim>\<open>send_file(p, as_attachment=True, download_name=n)\<close>, taken to
  succeed once \<^verbatim>\<open>os.path.exists\<close> has found the file.
\<close>

definition download_video :: "env \<Rightarrow> world \<Rightarrow> string \<Rightarrow> response" where
  "download_video e w jid =
     (case redis_get w (job_key jid) of
        Inl _ \<Rightarrow> internal_server_error
      | Inr None \<Rightarrow> (404, ErrorBody ''Job not found'')
      | Inr (Some job_data) \<Rightarrow>
          if status job_data \<noteq> Completed
          then (400, ErrorBody ''Video not ready for download'')
          else if path_exists e (video_path jid)
          then (200, FileBody (video_path jid) (story job_data @ ''.mp4''))
          else (404, ErrorBody ''Video file not found''))"

section \<open>Notions used in the statements\<close>

subsection \<open>The writes of one execution\<close>

text \<open>
  A job is tracked when Redis answers and holds its record; only then does
  \<^verbatim>\<open>update_job_progress\<close> write. \<open>updated_info\<close> is the record it writes.
\<close>

definition tracked :: "world \<Rightarrow> string \<Rightarrow> bool" where
  "tracked w jid = (redis_up w \<and> kv w (job_key jid) \<noteq> None)"

definition updated_info ::
  "env \<Rightarrow> job_info \<Rightarrow> job_status \<Rightarrow> int \<Rightarrow> string option \<Rightarrow> job_info" where
  "updated_info e j st p err =
     j\<lparr>status := st, progress := p,
       error := (if truthy_str err then err else error j),
       updated_at := Some (now e)\<rparr>"

text \<open>
  The records that one execution of the task stores, oldest first: the \<^verbatim>\<open>SET\<close> commands
  that the execution adds to those the server had executed before.
\<close>

definition attempt_writes :: "env \<Rightarrow> world \<Rightarrow> string \<Rightarrow> request \<Rightarrow> job_info list" where
  "attempt_writes e w jid rq =
     map (\<lambda>x. fst (snd x)) (drop (length (sets w)) (sets (generate_video_task e w jid rq)))"

text \<open>
  The arguments of the calls of \<^verbatim>\<open>update_job_progress\<close> that the task makes, in order,
  and the effect of a list of such calls. The control flow of the task never reads the
  store, so the list depends on the environment only; \<open>task_store\<close> below proves that
  the task is this list of calls as far as Redis is concerned.
\<close>

definition task_calls ::
  "env \<Rightarrow> string \<Rightarrow> request \<Rightarrow> (job_status \<times> int \<times> string option) list" where
  "task_calls e jid rq =
     (case generate_script e (story rq) (duration rq) (tiktok rq) of
        Inl ex \<Rightarrow> [(Processing, 10, None), (Failed, 0, Some (str ex))]
      | Inr (NoScenes ex) \<Rightarrow>
          [(Processing, 10, None), (Processing, 20, None), (Failed, 0, Some (str ex))]
      | Inr (Script sd) \<Rightarrow>
          [(Processing, 10, None), (Processing, 20, None), (Processing, 40, None),
           (Processing, 60, None)] @
          (case makedirs e ''/tmp/videos'' of
             Some ex \<Rightarrow> [(Failed, 0, Some (str ex))]
           | None \<Rightarrow>
               if stitch_video e sd (generate_images e (scenes sd) (resolution rq))
                    (generate_voiceover e sd) (resolution rq) (tiktok rq) (video_path jid)
               then [(Processing, 90, None), (Completed, 100, None)]
               else [(Failed, 0, Some ''Video stitching failed'')]))"

fun apply_calls ::
  "env \<Rightarrow> world \<Rightarrow> string \<Rightarrow> (job_status \<times> int \<times> string option) list \<Rightarrow> world" where
  "apply_calls e w jid [] = w"
| "apply_calls e w jid ((st, p, err) # cs) =
     apply_calls e (update_job_progress e w jid st p err) jid cs"

fun infos ::
  "env \<Rightarrow> job_info \<Rightarrow> (job_status \<times> int \<times> string option) list \<Rightarrow> job_info list" where
  "infos e j [] = []"
| "infos e j ((st, p, err) # cs) =
     updated_info e j st p err # infos e (updated_info e j st p err) cs"


subsection \<open>Scenes, failures and clips\<close>





subsection \<open>Request bodies\<close>






section \<open>Concrete scenarios\<close>

text \<open>
  The inputs at which the theorems below are instantiated. In \<open>demo_env\<close> every
  collaborator succeeds, the reply of OpenAI is plain text (so the script is the
  fallback script of one scene), and no bucket is configured. The other environments
  change one collaborator each.
\<close>

definition demo_env :: env where
  "demo_env =
     \<lparr>now = ''2024-05-01T12:00:00'',
      uuid4 = ''0b5c1c9e-7d1f-4e0a-9a57-3f2f1f6f0a11'',
      openai_chat = (\<lambda>_ _ _. Inr ''Long ago, Noah built an ark.''),
      json_loads = (\<lambda>_. None),
      replicate_run = (\<lambda>_ _ _. Inr ''https://replicate.delivery/out-0.png''),
      requests_get = (\<lambda>_. Inr (200, ''PNG'')),
      makedirs = (\<lambda>_. None),
      write_file = (\<lambda>_ _. None),
      elevenlabs_generate = (\<lambda>_ _. Inr 44100),
      elevenlabs_save = (\<lambda>_. None),
      path_exists = (\<lambda>_. True),
      ffmpeg_segment = (\<lambda>_ _ _ _. Inr 0),
      ffmpeg_concat = (\<lambda>_ _. Inr 0),
      s3_bucket_name = None,
      s3_upload_file = (\<lambda>_ _ _. None)\<rparr>"

definition env_ffmpeg_fails :: env where
  "env_ffmpeg_fails = demo_env\<lparr>ffmpeg_segment := (\<lambda>_ _ _ _. Inr 1)\<rparr>"

definition env_openai_silent :: env where
  "env_openai_silent = demo_env\<lparr>openai_chat := (\<lambda>_ _ _. Inl (Error []))\<rparr>"

definition env_openai_timeout :: env where
  "env_openai_timeout =
     demo_env\<lparr>openai_chat := (\<lambda>_ _ _. Inl (Error ''Request timed out.''))\<rparr>"

definition env_upload_denied :: env where
  "env_upload_denied =
     demo_env\<lparr>s3_bucket_name := Some ''bible-videos'',
              s3_upload_file := (\<lambda>_ _ _. Some (Error ''AccessDenied''))\<rparr>"



definition env_no_file :: env where
  "env_no_file = demo_env\<lparr>path_exists := (\<lambda>_. False)\<rparr>"

definition demo_request :: request where
  "demo_request =
     \<lparr>story = ''Noah's Ark'', duration = 15, resolution = ''Full HD'', tiktok = JBool False\<rparr>"

definition demo_job :: job_info where
  "demo_job =
     \<lparr>story = ''Noah's Ark'', duration = 15, resolution = ''Full HD'', tiktok = JBool False,
      job_id = ''j1'', status = Queued, progress = 0,
      created_at = ''2024-05-01T11:59:59'', updated_at = None, error = None\<rparr>"

definition demo_world :: world where
  "demo_world =
     \<lparr>redis_up = True, kv = [job_key ''j1'' \<mapsto> demo_job], sets = [],
      broker_up = True, queue = [], s3_calls = []\<rparr>"


definition done_world :: world where
  "done_world =
     \<lparr>redis_up = True,
      kv = [job_key ''j1'' \<mapsto> demo_job\<lparr>status := Completed, progress := 100\<rparr>],
      sets = [], broker_up = True, queue = [], s3_calls = []\<rparr>"











section \<open>Lemmas\<close>

subsection \<open>Progress updates and the store\<close>

lemma update_untracked:
  "\<not> tracked w jid \<Longrightarrow> update_job_progress e w jid st p err = w"
  by (auto simp: tracked_def update_job_progress_def redis_get_def split: option.splits)

lemma update_tracked:
  assumes "redis_up w" "kv w (job_key jid) = Some j"
  shows "update_job_progress e w jid st p err =
           w\<lparr>kv := (kv w)(job_key jid \<mapsto> updated_info e j st p err),
             sets := sets w @ [(job_key jid, updated_info e j st p err, 3600)]\<rparr>"
  using assms
  by (simp add: update_job_progress_def redis_get_def redis_set_def updated_info_def Let_def)

lemma s3_calls_update: "s3_calls (update_job_progress e w jid st p err) = s3_calls w"
  by (simp add: update_job_progress_def redis_get_def redis_set_def Let_def
      split: option.splits)

lemma upload_step_fields:
  "redis_up (upload_step e w jid) = redis_up w"
  "kv (upload_step e w jid) = kv w"
  "sets (upload_step e w jid) = sets w"
  by (simp_all add: upload_step_def Let_def split: option.splits)

lemma update_upload_commute:
  "update_job_progress e (upload_step e w jid) jid st p err =
   upload_step e (update_job_progress e w jid st p err) jid"
  by (simp add: update_job_progress_def upload_step_def redis_get_def redis_set_def Let_def
      split: option.splits)

text \<open>As far as Redis is concerned the task is the list of its calls.\<close>

lemma task_store:
  "redis_up (generate_video_task e w jid rq) =
     redis_up (apply_calls e w jid (task_calls e jid rq))"
  "kv (generate_video_task e w jid rq) = kv (apply_calls e w jid (task_calls e jid rq))"
  "sets (generate_video_task e w jid rq) = sets (apply_calls e w jid (task_calls e jid rq))"
  by (simp_all add: generate_video_task_def task_body_def task_calls_def Let_def
      update_upload_commute upload_step_fields
      split: sum.splits reply.splits option.splits)

lemma apply_calls_untracked:
  "\<not> tracked w jid \<Longrightarrow> apply_calls e w jid cs = w"
  by (induction cs) (auto simp: update_untracked)

lemma apply_calls_tracked:
  assumes "redis_up w" "kv w (job_key jid) = Some j"
  shows "redis_up (apply_calls e w jid cs)
       \<and> kv (apply_calls e w jid cs) (job_key jid) = Some (last (j # infos e j cs))
       \<and> sets (apply_calls e w jid cs) =
           sets w @ map (\<lambda>j'. (job_key jid, j', 3600)) (infos e j cs)"
  using assms
proof (induction cs arbitrary: w j)
  case Nil
  then show ?case by simp
next
  case (Cons c cs)
  obtain st p err where c: "c = (st, p, err)" by (cases c) auto
  let ?w = "update_job_progress e w jid st p err"
  have up: "redis_up ?w" and kv: "kv ?w (job_key jid) = Some (updated_info e j st p err)"
    and st: "sets ?w = sets w @ [(job_key jid, updated_info e j st p err, 3600)]"
    using Cons.prems by (simp_all add: update_tracked)
  from Cons.IH[OF up kv] show ?case
    by (simp add: c st)
qed

lemma attempt_writes_untracked:
  "\<not> tracked w jid \<Longrightarrow> attempt_writes e w jid rq = []"
  by (simp add: attempt_writes_def task_store apply_calls_untracked)

lemma attempt_writes_tracked:
  assumes "redis_up w" "kv w (job_key jid) = Some j"
  shows "attempt_writes e w jid rq = infos e j (task_calls e jid rq)"
  using apply_calls_tracked[OF assms, of e "task_calls e jid rq"]
  by (simp add: attempt_writes_def task_store comp_def)

lemma final_record_tracked:
  assumes "redis_up w" "kv w (job_key jid) = Some j"
  shows "kv (generate_video_task e w jid rq) (job_key jid) =
           Some (last (j # infos e j (task_calls e jid rq)))"
  using apply_calls_tracked[OF assms, of e "task_calls e jid rq"]
  by (simp add: task_store)

lemma infos_status_progress:
  "map (\<lambda>j'. (status j', progress j')) (infos e j cs) = map (\<lambda>c. (fst c, fst (snd c))) cs"
  by (induction cs arbitrary: j) (auto simp: updated_info_def)

lemma task_calls_script:
  assumes "generate_script e (story rq) (duration rq) (tiktok rq) = Inr (Script sd)"
  shows "\<exists>rest. task_calls e jid rq =
     [(Processing, 10, None), (Processing, 20, None), (Processing, 40, None),
      (Processing, 60, None)] @ rest"
  using assms by (simp add: task_calls_def)

subsection \<open>The per-scene stages\<close>





subsection \<open>Segments\<close>


















subsection \<open>Validation of a request body\<close>








lemma download_cases:
  assumes "redis_up w"
  shows "download_video e w jid =
     (case kv w (job_key jid) of
        None \<Rightarrow> (404, ErrorBody ''Job not found'')
      | Some j \<Rightarrow>
          if status j \<noteq> Completed then (400, ErrorBody ''Video not ready for download'')
          else if path_exists e (video_path jid)
          then (200, FileBody (video_path jid) (story j @ ''.mp4''))
          else (404, ErrorBody ''Video file not found''))"
  using assms by (simp add: download_video_def redis_get_def split: option.splits)

subsection \<open>The scenarios, evaluated\<close>

lemmas stage_defs =
  generate_script_def fallback_script_def generate_images_def generate_image_def
  image_placeholder_def generate_voiceover_def generate_voice_def audio_placeholder_def
  stitch_video_def segment_paths_def make_segment_def scene_media_def
  resolution_map_def dimensions_str_def scene_image_path_def scene_audio_path_def
  segment_path_def video_path_def string_of_nat.simps

lemmas demo_defs = demo_env_def demo_world_def demo_request_def demo_job_def



lemma demo_tracked: "redis_up demo_world" "kv demo_world (job_key ''j1'') = Some demo_job"
  by (simp_all add: demo_world_def)

lemma calls_ffmpeg_fails:
  "task_calls env_ffmpeg_fails ''j1'' demo_request =
     [(Processing, 10, None), (Processing, 20, None), (Processing, 40, None),
      (Processing, 60, None), (Failed, 0, Some ''Video stitching failed'')]"
  by (simp add: task_calls_def stage_defs demo_defs env_ffmpeg_fails_def)


lemma calls_openai_timeout:
  "task_calls env_openai_timeout ''j1'' demo_request =
     [(Processing, 10, None), (Failed, 0, Some ''Request timed out.'')]"
  by (simp add: task_calls_def stage_defs demo_defs env_openai_timeout_def)

lemma calls_openai_silent:
  "task_calls env_openai_silent ''j1'' demo_request =
     [(Processing, 10, None), (Failed, 0, Some [])]"
  by (simp add: task_calls_def stage_defs demo_defs env_openai_silent_def)


lemma body_ffmpeg_fails:
  "\<exists>w'. task_body env_ffmpeg_fails demo_world ''j1'' demo_request = Inr w'"
  by (simp add: task_body_def Let_def stage_defs demo_defs env_ffmpeg_fails_def)

lemma body_openai_timeout:
  "\<exists>w'. task_body env_openai_timeout demo_world ''j1'' demo_request =
          Inl (Error ''Request timed out.'', w')"
  by (simp add: task_body_def Let_def stage_defs demo_defs env_openai_timeout_def)

section \<open>The properties\<close>

subsection \<open>Failed jobs\<close>

text \<open>
  C1, as amended. Both failure paths of \<^verbatim>\<open>generate_video_task\<close> call
  \<^verbatim>\<open>update_job_progress(job_id, 'failed', 0, ...)\<close>. So for every job that the execution
  moves to \<^verbatim>\<open>failed\<close> the record's progress is 0, whatever checkpoints were written
  before, and never 100. Its \<^verbatim>\<open>error\<close> field is \<^verbatim>\<open>'Video stitching failed'\<close> when the
  \<^verbatim>\<open>try\<close> block ran to its end (stitching returned \<^verbatim>\<open>False\<close>), and the text of the
  exception when a stage raised and that text is not empty.
\<close>

theorem failed_job_progress_reset:
  assumes "kv w (job_key jid) = Some created" and "status created \<noteq> Failed"
    and "kv (generate_video_task e w jid rq) (job_key jid) = Some j'" and "status j' = Failed"
  shows "progress j' = 0
       \<and> (case task_body e w jid rq of
            Inl (ex, _) \<Rightarrow> str ex \<noteq> [] \<longrightarrow> error j' = Some (str ex)
          | Inr _ \<Rightarrow> error j' = Some ''Video stitching failed'')"
proof (cases "redis_up w")
  case False
  then have "\<not> tracked w jid" by (simp add: tracked_def)
  then have "kv (generate_video_task e w jid rq) = kv w"
    by (simp add: task_store apply_calls_untracked)
  with assms show ?thesis by simp
next
  case True
  have j': "j' = last (created # infos e created (task_calls e jid rq))"
    using final_record_tracked[OF True assms(1), of e rq] assms(3) by simp
  show ?thesis
    using assms(2,4) unfolding j' task_calls_def task_body_def Let_def
    by (auto simp: updated_info_def split: sum.splits reply.splits option.splits)
qed

text \<open>
  The theorem at a job whose segments FFmpeg fails to encode (stitching returns
  \<^verbatim>\<open>False\<close>) and at a job whose call to OpenAI raises.
\<close>

theorem failed_job_progress_reset_witness:
  "map_option (\<lambda>j. (progress j, error j))
     (kv (generate_video_task env_ffmpeg_fails demo_world ''j1'' demo_request) (job_key ''j1'')) =
     Some (0, Some ''Video stitching failed'')
   \<and> map_option (\<lambda>j. (progress j, error j))
     (kv (generate_video_task env_openai_timeout demo_world ''j1'' demo_request) (job_key ''j1'')) =
     Some (0, Some ''Request timed out.'')"
proof -
  have nf: "status demo_job \<noteq> Failed" by (simp add: demo_job_def)
  obtain a where a: "kv (generate_video_task env_ffmpeg_fails demo_world ''j1'' demo_request)
      (job_key ''j1'') = Some a" "status a = Failed"
    by (simp add: final_record_tracked[OF demo_tracked] calls_ffmpeg_fails updated_info_def)
  obtain b where b: "kv (generate_video_task env_openai_timeout demo_world ''j1'' demo_request)
      (job_key ''j1'') = Some b" "status b = Failed"
    by (simp add: final_record_tracked[OF demo_tracked] calls_openai_timeout updated_info_def)
  from failed_job_progress_reset[OF demo_tracked(2) nf a] body_ffmpeg_fails
       failed_job_progress_reset[OF demo_tracked(2) nf b] body_openai_timeout
  show ?thesis by (auto simp: a b)
qed

text \<open>
  The statement of C1 fails: with every stage up to the voice-over done (checkpoints
  10, 20, 40 and 60 written) and FFmpeg exiting with 1 on the only segment, the job
  ends \<^verbatim>\<open>failed\<close> with progress 0, not 60. And when the exception that fails the job has
  an empty text, \<^verbatim>\<open>if error:\<close> is false and the \<^verbatim>\<open>error\<close> field stays \<^verbatim>\<open>None\<close>.
\<close>

theorem failed_job_loses_checkpoint:
  "map (\<lambda>j. (status j, progress j))
     (attempt_writes env_ffmpeg_fails demo_world ''j1'' demo_request) =
     [(Processing, 10), (Processing, 20), (Processing, 40), (Processing, 60), (Failed, 0)]
   \<and> map_option (\<lambda>j. (status j, progress j, error j))
       (kv (generate_video_task env_ffmpeg_fails demo_world ''j1'' demo_request) (job_key ''j1'')) =
     Some (Failed, 0, Some ''Video stitching failed'')
   \<and> map_option (\<lambda>j. (status j, progress j, error j))
       (kv (generate_video_task env_openai_silent demo_world ''j1'' demo_request) (job_key ''j1'')) =
     Some (Failed, 0, None)"
  by (simp add: attempt_writes_tracked[OF demo_tracked] final_record_tracked[OF demo_tracked]
      calls_ffmpeg_fails calls_openai_silent updated_info_def demo_job_def)

subsection \<open>Progress within one execution\<close>

text \<open>
  C2, as amended. Within one execution of \<^verbatim>\<open>generate_video_task\<close> the progress values
  written with status \<^verbatim>\<open>processing\<close> or \<^verbatim>\<open>completed\<close> never decrease; a write with
  status \<^verbatim>\<open>failed\<close> can only be the last write of the execution, and it stores
  progress 0.
\<close>

theorem progress_nondecreasing_until_failure:
  "sorted (map progress (filter (\<lambda>j. status j \<noteq> Failed) (attempt_writes e w jid rq)))
   \<and> (\<forall>j \<in> set (butlast (attempt_writes e w jid rq)). status j \<noteq> Failed)
   \<and> (\<forall>j \<in> set (attempt_writes e w jid rq). status j = Failed \<longrightarrow> progress j = 0)"
proof (cases "tracked w jid")
  case False
  then show ?thesis by (simp add: attempt_writes_untracked)
next
  case True
  then obtain created where up: "redis_up w" and c: "kv w (job_key jid) = Some created"
    by (auto simp: tracked_def)
  show ?thesis
    unfolding attempt_writes_tracked[OF up c] task_calls_def
    by (auto simp: updated_info_def split: sum.splits reply.splits option.splits)
qed

theorem progress_nondecreasing_until_failure_witness:
  "map (\<lambda>j. (status j, progress j))
     (attempt_writes env_ffmpeg_fails demo_world ''j1'' demo_request) =
     [(Processing, 10), (Processing, 20), (Processing, 40), (Processing, 60), (Failed, 0)]
   \<and> sorted (map progress (filter (\<lambda>j. status j \<noteq> Failed)
        (attempt_writes env_ffmpeg_fails demo_world ''j1'' demo_request)))
   \<and> progress (last (attempt_writes env_ffmpeg_fails demo_world ''j1'' demo_request)) = 0"
proof -
  let ?ws = "attempt_writes env_ffmpeg_fails demo_world ''j1'' demo_request"
  have ws: "map (\<lambda>j. (status j, progress j)) ?ws =
     [(Processing, 10), (Processing, 20), (Processing, 40), (Processing, 60), (Failed, 0)]"
    by (simp add: attempt_writes_tracked[OF demo_tracked] calls_ffmpeg_fails updated_info_def)
  have l: "last ?ws \<in> set ?ws" "status (last ?ws) = Failed"
    by (simp_all add: attempt_writes_tracked[OF demo_tracked] calls_ffmpeg_fails
        updated_info_def)
  from progress_nondecreasing_until_failure[of env_ffmpeg_fails demo_world "''j1''"
      demo_request] l ws
  show ?thesis by blast
qed

text \<open>
  The statement of C2 fails: when the call to OpenAI raises, the execution writes
  progress 10 and then, with the status \<^verbatim>\<open>failed\<close>, progress 0.
\<close>

theorem progress_drops_on_failure:
  "map progress (attempt_writes env_openai_timeout demo_world ''j1'' demo_request) = [10, 0]
   \<and> \<not> sorted (map progress
         (attempt_writes env_openai_timeout demo_world ''j1'' demo_request))"
  by (simp add: attempt_writes_tracked[OF demo_tracked] calls_openai_timeout updated_info_def)

subsection \<open>Partial degradation in stitch_video\<close>




subsection \<open>The order of the clips\<close>



subsection \<open>The per-scene stages never abort\<close>



subsection \<open>POST /generate\<close>




subsection \<open>Status transitions\<close>



subsection \<open>The upload stage\<close>

text \<open>
  C8. When the stages before it did not raise and \<^verbatim>\<open>stitch_video\<close> returned \<^verbatim>\<open>True\<close>, the
  job of a tracked record ends \<^verbatim>\<open>completed\<close> with progress 100, whatever
  \<^verbatim>\<open>s3_client.upload_file\<close> does (nothing is assumed about it, so it may raise). The
  upload is called once when \<^verbatim>\<open>S3_BUCKET_NAME\<close> is set to a non-empty string, and not
  at all otherwise.
\<close>

theorem upload_failure_keeps_job_completed:
  assumes "redis_up w" and "kv w (job_key jid) = Some created"
    and "generate_script e (story rq) (duration rq) (tiktok rq) = Inr (Script sd)"
    and "makedirs e ''/tmp/videos'' = None"
    and "stitch_video e sd (generate_images e (scenes sd) (resolution rq))
           (generate_voiceover e sd) (resolution rq) (tiktok rq) (video_path jid)"
  shows "map_option status (kv (generate_video_task e w jid rq) (job_key jid)) =
           Some Completed
       \<and> map_option progress (kv (generate_video_task e w jid rq) (job_key jid)) = Some 100
       \<and> s3_calls (generate_video_task e w jid rq) =
           s3_calls w @
             (case s3_bucket_name e of
                None \<Rightarrow> []
              | Some bucket \<Rightarrow>
                  if bucket = [] then []
                  else [(video_path jid, bucket, ''videos/'' @ jid @ ''.mp4'')])"
proof -
  have calls: "task_calls e jid rq =
      [(Processing, 10, None), (Processing, 20, None), (Processing, 40, None),
       (Processing, 60, None), (Processing, 90, None), (Completed, 100, None)]"
    using assms(3,4,5) by (simp add: task_calls_def)
  have rec: "kv (generate_video_task e w jid rq) (job_key jid) =
      Some (last (created # infos e created (task_calls e jid rq)))"
    by (rule final_record_tracked[OF assms(1,2)])
  have s3: "s3_calls (generate_video_task e w jid rq) = s3_calls (upload_step e w jid)"
    using assms(3,4,5)
    by (simp add: generate_video_task_def task_body_def Let_def s3_calls_update
        update_upload_commute[symmetric])
  show ?thesis
    unfolding rec calls s3
    by (simp add: updated_info_def upload_step_def Let_def split: option.splits)
qed

text \<open>
  The theorem at a job whose upload is refused by S3, and at the same job with no
  bucket configured.
\<close>

theorem upload_failure_keeps_job_completed_witness:
  "s3_upload_file env_upload_denied (video_path ''j1'') ''bible-videos'' ''videos/j1.mp4''
     = Some (Error ''AccessDenied'')
   \<and> map_option status
       (kv (generate_video_task env_upload_denied demo_world ''j1'' demo_request)
          (job_key ''j1'')) = Some Completed
   \<and> map_option progress
       (kv (generate_video_task env_upload_denied demo_world ''j1'' demo_request)
          (job_key ''j1'')) = Some 100
   \<and> s3_calls (generate_video_task env_upload_denied demo_world ''j1'' demo_request) =
       [(''/tmp/videos/j1.mp4'', ''bible-videos'', ''videos/j1.mp4'')]
   \<and> s3_calls (generate_video_task demo_env demo_world ''j1'' demo_request) = []"
proof -
  let ?sd = "fallback_script ''Noah's Ark'' 15 ''Long ago, Noah built an ark.''"
  have s1: "generate_script env_upload_denied (story demo_request) (duration demo_request)
      (tiktok demo_request) = Inr (Script ?sd)"
    by (simp add: generate_script_def demo_defs env_upload_denied_def)
  have m1: "makedirs env_upload_denied ''/tmp/videos'' = None"
    by (simp add: demo_defs env_upload_denied_def)
  have v1: "stitch_video env_upload_denied ?sd
      (generate_images env_upload_denied (scenes ?sd) (resolution demo_request))
      (generate_voiceover env_upload_denied ?sd) (resolution demo_request)
      (tiktok demo_request) (video_path ''j1'')"
    by (simp add: stage_defs demo_defs env_upload_denied_def)
  have s2: "generate_script demo_env (story demo_request) (duration demo_request)
      (tiktok demo_request) = Inr (Script ?sd)"
    by (simp add: generate_script_def demo_defs)
  have m2: "makedirs demo_env ''/tmp/videos'' = None"
    by (simp add: demo_defs)
  have v2: "stitch_video demo_env ?sd
      (generate_images demo_env (scenes ?sd) (resolution demo_request))
      (generate_voiceover demo_env ?sd) (resolution demo_request)
      (tiktok demo_request) (video_path ''j1'')"
    by (simp add: stage_defs demo_defs)
  from upload_failure_keeps_job_completed[OF demo_tracked s1 m1 v1]
       upload_failure_keeps_job_completed[OF demo_tracked s2 m2 v2]
  show ?thesis
    by (simp add: demo_defs env_upload_denied_def video_path_def)
qed

subsection \<open>GET /download\<close>

text \<open>
  C9. With Redis answering, \<^verbatim>\<open>GET /download/<job_id>\<close> sends a file if and only if the
  job record exists with status \<^verbatim>\<open>completed\<close> and the file \<^verbatim>\<open>/tmp/videos/<job_id>.mp4\<close>
  exists, and then it sends that file under the name \<^verbatim>\<open><story>.mp4\<close>; it answers 400
  exactly when the record exists with another status, and 404 exactly when the record
  is missing (never created, or expired) or the job is completed and the file is
  missing.
\<close>

theorem download_video_responses:
  assumes "redis_up w"
  shows "((\<exists>p n. download_video e w jid = (200, FileBody p n)) \<longleftrightarrow>
            (\<exists>j. kv w (job_key jid) = Some j \<and> status j = Completed)
            \<and> path_exists e (video_path jid))
       \<and> (\<forall>j. kv w (job_key jid) = Some j \<and> status j = Completed
              \<and> path_exists e (video_path jid) \<longrightarrow>
            download_video e w jid = (200, FileBody (video_path jid) (story j @ ''.mp4'')))
       \<and> (fst (download_video e w jid) = 400 \<longleftrightarrow>
            (\<exists>j. kv w (job_key jid) = Some j \<and> status j \<noteq> Completed))
       \<and> (fst (download_video e w jid) = 404 \<longleftrightarrow>
            kv w (job_key jid) = None
            \<or> (\<exists>j. kv w (job_key jid) = Some j \<and> status j = Completed)
               \<and> \<not> path_exists e (video_path jid))"
  unfolding download_cases[OF assms]
  by (cases "kv w (job_key jid)") auto

text \<open>
  The theorem at a completed job with its file, at a queued job, at an unknown id and
  at a completed job whose file is gone.
\<close>

theorem download_video_responses_witness:
  "download_video demo_env done_world ''j1'' =
     (200, FileBody ''/tmp/videos/j1.mp4'' ''Noah's Ark.mp4'')
   \<and> fst (download_video demo_env demo_world ''j1'') = 400
   \<and> fst (download_video demo_env demo_world ''j2'') = 404
   \<and> fst (download_video env_no_file done_world ''j1'') = 404"
proof -
  have up: "redis_up done_world" "redis_up demo_world"
    by (simp_all add: done_world_def demo_world_def)
  have d: "kv done_world (job_key ''j1'') =
        Some (demo_job\<lparr>status := Completed, progress := 100\<rparr>)
      \<and> status (demo_job\<lparr>status := Completed, progress := 100\<rparr>) = Completed
      \<and> path_exists demo_env (video_path ''j1'')"
    by (simp add: done_world_def demo_env_def)
  have q: "\<exists>j. kv demo_world (job_key ''j1'') = Some j \<and> status j \<noteq> Completed"
    by (simp add: demo_world_def demo_job_def)
  have m: "kv demo_world (job_key ''j2'') = None"
    by (simp add: demo_world_def job_key_def)
  have g: "(\<exists>j. kv done_world (job_key ''j1'') = Some j \<and> status j = Completed)
      \<and> \<not> path_exists env_no_file (video_path ''j1'')"
    by (simp add: done_world_def env_no_file_def)
  have p1: "download_video demo_env done_world ''j1'' =
     (200, FileBody ''/tmp/videos/j1.mp4'' ''Noah's Ark.mp4'')"
    using download_video_responses[OF up(1), of demo_env "''j1''", THEN conjunct2,
        THEN conjunct1, rule_format, OF d]
    by (simp add: video_path_def demo_job_def)
  have p2: "fst (download_video demo_env demo_world ''j1'') = 400"
    using download_video_responses[OF up(2), of demo_env "''j1''", THEN conjunct2,
        THEN conjunct2, THEN conjunct1] q
    by blast
  have p3: "fst (download_video demo_env demo_world ''j2'') = 404"
    using download_video_responses[OF up(2), of demo_env "''j2''", THEN conjunct2,
        THEN conjunct2, THEN conjunct2] m
    by blast
  have p4: "fst (download_video env_no_file done_world ''j1'') = 404"
    using download_video_responses[OF up(1), of env_no_file "''j1''", THEN conjunct2,
        THEN conjunct2, THEN conjunct2] g
    by blast
  show ?thesis by (rule conjI[OF p1 conjI[OF p2 conjI[OF p3 p4]]])
qed

subsection \<open>The fallback script\<close>

text \<open>
  C10. When OpenAI returns a text that \<^verbatim>\<open>json.loads\<close> rejects, \<^verbatim>\<open>generate_script\<close> does
  not raise: it returns the fallback script, whose single scene has the number 1, the
  duration of the request times 60 and the raw text as narration. The task goes on:
  for a tracked job it writes the checkpoints 10, 20, 40 and 60 with the status
  \<^verbatim>\<open>processing\<close>.
\<close>

theorem generate_script_fallback:
  assumes "openai_chat e st dur (truthy fmt) = Inr txt" and "json_loads e txt = None"
  shows "generate_script e st dur fmt = Inr (Script (fallback_script st dur txt))
       \<and> map scene_number (scenes (fallback_script st dur txt)) = [1]
       \<and> map scene_duration (scenes (fallback_script st dur txt)) = [dur * 60]
       \<and> map narration (scenes (fallback_script st dur txt)) = [txt]
       \<and> (redis_up w \<and> kv w (job_key jid) = Some created \<longrightarrow>
            take 4 (map (\<lambda>j. (status j, progress j))
              (attempt_writes e w jid
                 \<lparr>story = st, duration = dur, resolution = res, tiktok = fmt\<rparr>)) =
            [(Processing, 10), (Processing, 20), (Processing, 40), (Processing, 60)])"
proof -
  have gs: "generate_script e st dur fmt = Inr (Script (fallback_script st dur txt))"
    using assms by (simp add: generate_script_def)
  have job: "take 4 (map (\<lambda>j. (status j, progress j))
              (attempt_writes e w jid
                 \<lparr>story = st, duration = dur, resolution = res, tiktok = fmt\<rparr>)) =
            [(Processing, 10), (Processing, 20), (Processing, 40), (Processing, 60)]"
    if t: "redis_up w" "kv w (job_key jid) = Some created"
  proof -
    let ?rq = "\<lparr>story = st, duration = dur, resolution = res, tiktok = fmt\<rparr>"
    from gs obtain rest where c: "task_calls e jid ?rq =
       [(Processing, 10, None), (Processing, 20, None), (Processing, 40, None),
        (Processing, 60, None)] @ rest"
      using task_calls_script[of e ?rq _ jid] by auto
    show ?thesis
      unfolding attempt_writes_tracked[OF t] infos_status_progress c by simp
  qed
  show ?thesis
    using gs job by (simp add: fallback_script_def)
qed

theorem generate_script_fallback_witness:
  "generate_script demo_env ''Noah's Ark'' 15 (JBool False) =
     Inr (Script (fallback_script ''Noah's Ark'' 15 ''Long ago, Noah built an ark.''))
   \<and> map scene_number
       (scenes (fallback_script ''Noah's Ark'' 15 ''Long ago, Noah built an ark.'')) = [1]
   \<and> map scene_duration
       (scenes (fallback_script ''Noah's Ark'' 15 ''Long ago, Noah built an ark.'')) = [900]
   \<and> map narration
       (scenes (fallback_script ''Noah's Ark'' 15 ''Long ago, Noah built an ark.'')) =
       [''Long ago, Noah built an ark.'']
   \<and> take 4 (map (\<lambda>j. (status j, progress j))
        (attempt_writes demo_env demo_world ''j1'' demo_request)) =
       [(Processing, 10), (Processing, 20), (Processing, 40), (Processing, 60)]"
proof -
  have o: "openai_chat demo_env ''Noah's Ark'' 15 (truthy (JBool False)) =
      Inr ''Long ago, Noah built an ark.''"
    by (simp add: demo_env_def)
  have l: "json_loads demo_env ''Long ago, Noah built an ark.'' = None"
    by (simp add: demo_env_def)
  have t: "redis_up demo_world \<and> kv demo_world (job_key ''j1'') = Some demo_job"
    by (simp add: demo_tracked)
  note inst = generate_script_fallback[OF o l, where w=demo_world and jid="''j1''"
      and created=demo_job and res="''Full HD''"]
  have rq: "\<lparr>story = ''Noah's Ark'', duration = 15, resolution = ''Full HD'',
      tiktok = JBool False\<rparr> = demo_request"
    by (simp add: demo_request_def)
  from inst t show ?thesis unfolding rq by simp
qed

end
